theory Spec2Isabelle
  imports Main
begin

section \<open>The agent of \<open>python-agent/agent.py\<close>\<close>

text \<open>
  The class \<open>MCPToolboxAgent\<close> keeps a tool list and a message history, asks the model
  service for a response and runs the tools the response requests until the service
  stops asking for tools. The Python dictionaries the code probes with \<open>.get\<close> are
  records whose optional keys are \<open>option\<close> fields; the members the code reads with a
  subscript (\<open>tool_use["name"]\<close>, \<open>tool_use["input"]\<close>, \<open>tool_use["toolUseId"]\<close>) are
  plain fields, as the service's tool-use block always carries them. Structured values
  the code only passes on (input schemas, tool arguments) are the type variable \<open>'j\<close>.
  An exception that a service of the environment raises is an instance of \<open>Exception\<close>,
  and it is the string \<open>str(e)\<close> that the handlers format into their result;
  \<open>execute_tool_try\<close> is \<open>_execute_tool\<close> on a call that can also raise outside
  \<open>Exception\<close>. The \<open>print\<close> calls are left out.
\<close>

subsection \<open>Data\<close>

text \<open>An MCP tool: \<open>tool.name\<close>, \<open>tool.description\<close> (may be \<open>None\<close>), \<open>tool.inputSchema\<close>.\<close>

record 'j tool =
  name :: string
  description :: "string option"
  inputSchema :: 'j

text \<open>\<open>{"toolSpec": {"name": .., "description": .., "inputSchema": {"json": ..}}}\<close>\<close>

record 'j tool_spec =
  spec_name :: string
  spec_description :: string
  spec_inputSchema :: 'j

text \<open>The tool configuration is a dictionary with the one optional key \<open>"tools"\<close>.\<close>

record 'j tool_config =
  cfg_tools :: "'j tool_spec list option"

text \<open>\<open>{"toolUseId": .., "name": .., "input": ..}\<close>\<close>

record 'j tool_use =
  toolUseId :: string
  tu_name :: string
  tu_input :: 'j

text \<open>\<open>{"toolUseId": id, "content": [{"text": result}]}\<close>: the content items are texts.\<close>

record tool_result =
  tr_toolUseId :: string
  tr_content :: "string list"

text \<open>A content block is a dictionary with the optional keys \<open>"text"\<close>, \<open>"toolUse"\<close>
  and \<open>"toolResult"\<close>.\<close>

record 'j content_block =
  block_text :: "string option"
  block_toolUse :: "'j tool_use option"
  block_toolResult :: "tool_result option"

text \<open>A message is a dictionary with the optional keys \<open>"role"\<close> and \<open>"content"\<close>.\<close>

record 'j message =
  role :: "string option"
  content :: "'j content_block list option"

record 'j model_output =
  out_message :: "'j message option"

record 'j response =
  stopReason :: "string option"
  resp_output :: "'j model_output option"

text \<open>The keyword arguments of \<open>bedrock.converse\<close>; \<open>toolConfig\<close> may be missing.\<close>

record 'j request =
  modelId :: string
  req_messages :: "'j message list"
  toolConfig :: "'j tool_config option"

text \<open>A content item of a tool call's result has a \<open>text\<close> attribute or has none.\<close>

datatype 'j content_item = TextContent string | OtherContent 'j

text \<open>The result of a tool call: its content items, and the flag by which the tool
  server reports that the tool failed. The code does not read the flag.\<close>

record 'j call_result =
  cr_content :: "'j content_item list"
  isError :: bool

text \<open>The fields of the agent that \<open>chat\<close> reads and writes.\<close>

record 'j agent =
  model_id :: string
  tools :: "'j tool list"
  messages :: "'j message list"

text \<open>
  The two services and \<open>str\<close> on a call result are parameters. A service takes the state
  \<open>'w\<close> of the outside world and returns the next one; \<open>Inl e\<close> is a raised instance of
  \<open>Exception\<close> with \<open>str(e) = e\<close>, which is what \<open>except Exception\<close> catches.
\<close>

record ('w, 'j) env =
  bedrock_converse :: "'w \<Rightarrow> 'j request \<Rightarrow> (string + 'j response) \<times> 'w"
  session_call_tool :: "'w \<Rightarrow> string \<Rightarrow> 'j \<Rightarrow> (string + 'j call_result) \<times> 'w"
  str_result :: "'j call_result \<Rightarrow> string"

subsection \<open>\<open>_format_tools_for_bedrock\<close>\<close>

definition tool_spec_of :: "'j tool \<Rightarrow> 'j tool_spec" where
  "tool_spec_of t =
     \<lparr>spec_name = name t,
      spec_description = (case description t of None \<Rightarrow> '''' | Some d \<Rightarrow> if d \<noteq> [] then d else ''''),
      spec_inputSchema = inputSchema t\<rparr>"

fun append_tool_specs :: "'j tool_spec list \<Rightarrow> 'j tool list \<Rightarrow> 'j tool_spec list" where
  "append_tool_specs tool_specs [] = tool_specs"
| "append_tool_specs tool_specs (t # ts) = append_tool_specs (tool_specs @ [tool_spec_of t]) ts"

definition format_tools_for_bedrock :: "'j agent \<Rightarrow> 'j tool_config" where
  "format_tools_for_bedrock a =
     (let tool_specs = append_tool_specs [] (tools a)
      in if tool_specs \<noteq> [] then \<lparr>cfg_tools = Some tool_specs\<rparr> else \<lparr>cfg_tools = None\<rparr>)"

subsection \<open>\<open>_execute_tool\<close>\<close>

text \<open>The inner loop returns at the first item with a \<open>text\<close> attribute.\<close>

fun first_text :: "'j content_item list \<Rightarrow> string option" where
  "first_text [] = None"
| "first_text (TextContent t # cs) = Some t"
| "first_text (OtherContent x # cs) = first_text cs"

text \<open>\<open>_execute_tool\<close> on the tool server of an environment: the call returns a result, or
  raises an instance of \<open>Exception\<close>, which the handler turns into a string.\<close>

definition execute_tool :: "('w, 'j) env \<Rightarrow> 'w \<Rightarrow> string \<Rightarrow> 'j \<Rightarrow> string \<times> 'w" where
  "execute_tool E w tool_name tool_input =
     (case session_call_tool E w tool_name tool_input of
        (Inl e, w') \<Rightarrow> (''Error executing tool: '' @ e, w')
      | (Inr result, w') \<Rightarrow>
          (if cr_content result \<noteq> []
           then (case first_text (cr_content result) of
                   Some t \<Rightarrow> (t, w')
                 | None \<Rightarrow> (str_result E result, w'))
           else (str_result E result, w')))"



subsection \<open>\<open>chat\<close>\<close>

definition user_turn :: "string \<Rightarrow> 'j message" where
  "user_turn user_message =
     \<lparr>role = Some ''user'',
      content = Some [\<lparr>block_text = Some user_message, block_toolUse = None, block_toolResult = None\<rparr>]\<rparr>"

definition tool_result_block :: "string \<Rightarrow> string \<Rightarrow> 'j content_block" where
  "tool_result_block tool_use_id result =
     \<lparr>block_text = None, block_toolUse = None,
      block_toolResult = Some \<lparr>tr_toolUseId = tool_use_id, tr_content = [result]\<rparr>\<rparr>"

definition tool_results_turn :: "'j content_block list \<Rightarrow> 'j message" where
  "tool_results_turn tool_results = \<lparr>role = Some ''user'', content = Some tool_results\<rparr>"

text \<open>The empty dictionary \<open>{}\<close> that \<open>.get("message", {})\<close> defaults to.\<close>

definition empty_message :: "'j message" where
  "empty_message = \<lparr>role = None, content = None\<rparr>"

text \<open>\<open>if assistant_message:\<close> a dictionary is true when it has a key.\<close>

definition message_truthy :: "'j message \<Rightarrow> bool" where
  "message_truthy m \<longleftrightarrow> role m \<noteq> None \<or> content m \<noteq> None"

text \<open>\<open>response.get("output", {}).get("message", {})\<close>\<close>

definition assistant_message_of :: "'j response \<Rightarrow> 'j message" where
  "assistant_message_of response =
     (case resp_output response of
        None \<Rightarrow> empty_message
      | Some out \<Rightarrow> (case out_message out of None \<Rightarrow> empty_message | Some m \<Rightarrow> m))"

text \<open>\<open>assistant_message.get("content", [])\<close>\<close>

definition get_content :: "'j message \<Rightarrow> 'j content_block list" where
  "get_content m = (case content m of None \<Rightarrow> [] | Some cs \<Rightarrow> cs)"

definition request_params :: "'j agent \<Rightarrow> 'j tool_config \<Rightarrow> 'j request" where
  "request_params a tool_config =
     \<lparr>modelId = model_id a, req_messages = messages a,
      toolConfig = (if cfg_tools tool_config \<noteq> None then Some tool_config else None)\<rparr>"

text \<open>The loop over the assistant's content that runs each requested tool and appends
  its result to \<open>tool_results\<close>. A block's \<open>"toolUse"\<close> dictionary has its three members,
  so \<open>if content.get("toolUse")\<close> is true exactly when the key is there.\<close>

fun run_tool_uses ::
  "('w, 'j) env \<Rightarrow> 'w \<Rightarrow> 'j content_block list \<Rightarrow> 'j content_block list \<Rightarrow> 'j content_block list \<times> 'w" where
  "run_tool_uses E w [] tool_results = (tool_results, w)"
| "run_tool_uses E w (c # cs) tool_results =
     (case block_toolUse c of
        None \<Rightarrow> run_tool_uses E w cs tool_results
      | Some tool_use \<Rightarrow>
          (case execute_tool E w (tu_name tool_use) (tu_input tool_use) of
             (result, w') \<Rightarrow>
               run_tool_uses E w' cs (tool_results @ [tool_result_block (toolUseId tool_use) result])))"

text \<open>The loop that builds \<open>final_response\<close>; \<open>if content.get("text")\<close> skips a missing
  and an empty text.\<close>

fun final_text :: "string \<Rightarrow> 'j content_block list \<Rightarrow> string" where
  "final_text final_response [] = final_response"
| "final_text final_response (c # cs) =
     (case block_text c of
        None \<Rightarrow> final_text final_response cs
      | Some t \<Rightarrow> if t \<noteq> [] then final_text (final_response @ t) cs else final_text final_response cs)"

text \<open>One pass through the body of \<open>while True\<close>: it returns, or goes round again.\<close>

datatype outcome = Return string | Continue

definition chat_iter ::
  "('w, 'j) env \<Rightarrow> 'j tool_config \<Rightarrow> 'j agent \<Rightarrow> 'w \<Rightarrow> outcome \<times> 'j agent \<times> 'w" where
  "chat_iter E tool_config a w =
     (case bedrock_converse E w (request_params a tool_config) of
        (Inl e, w1) \<Rightarrow> (Return (''Bedrock error: '' @ e), a, w1)
      | (Inr response, w1) \<Rightarrow>
          (let stop_reason = stopReason response;
               assistant_message = assistant_message_of response;
               a1 = (if message_truthy assistant_message
                     then a\<lparr>messages := messages a @ [assistant_message]\<rparr> else a)
           in if stop_reason = Some ''tool_use''
              then (case run_tool_uses E w1 (get_content assistant_message) [] of
                      (tool_results, w2) \<Rightarrow>
                        (Continue, a1\<lparr>messages := messages a1 @ [tool_results_turn tool_results]\<rparr>, w2))
              else (Return (final_text '''' (get_content assistant_message)), a1, w1)))"

text \<open>The loop may go on for ever: \<open>None\<close> is the call that never returns.\<close>

partial_function (option) chat_loop ::
  "('w, 'j) env \<Rightarrow> 'j tool_config \<Rightarrow> 'j agent \<Rightarrow> 'w \<Rightarrow> (string \<times> 'j agent \<times> 'w) option" where
  "chat_loop E tool_config a w =
     (case chat_iter E tool_config a w of
        (Return r, a', w') \<Rightarrow> Some (r, a', w')
      | (Continue, a', w') \<Rightarrow> chat_loop E tool_config a' w')"

declare chat_loop.simps [code]

definition chat :: "('w, 'j) env \<Rightarrow> 'j agent \<Rightarrow> 'w \<Rightarrow> string \<Rightarrow> (string \<times> 'j agent \<times> 'w) option" where
  "chat E a w user_message =
     (let a0 = a\<lparr>messages := messages a @ [user_turn user_message]\<rparr>;
          tool_config = format_tools_for_bedrock a0
      in chat_loop E tool_config a0 w)"

subsection \<open>\<open>clear_history\<close>\<close>


section \<open>Vocabulary of the properties\<close>

text \<open>The texts, the tool-use requests and the tool-result ids of a list of content
  blocks, in the order of the blocks.\<close>

definition text_blocks :: "'j content_block list \<Rightarrow> string list" where
  "text_blocks cs = List.map_filter block_text cs"



text \<open>\<open>hasattr(content, 'text')\<close>\<close>

fun has_text :: "'j content_item \<Rightarrow> bool" where
  "has_text (TextContent t) = True"
| "has_text (OtherContent x) = False"


text \<open>
  \<open>tool_rounds n\<close> runs \<open>n\<close> passes of the loop that all end in \<open>continue\<close>, and gives
  the agent and the world after them; it is \<open>None\<close> when one of the passes returns.
\<close>

fun tool_rounds ::
  "nat \<Rightarrow> ('w, 'j) env \<Rightarrow> 'j tool_config \<Rightarrow> 'j agent \<Rightarrow> 'w \<Rightarrow> ('j agent \<times> 'w) option" where
  "tool_rounds 0 E cfg a w = Some (a, w)"
| "tool_rounds (Suc n) E cfg a w =
     (case chat_iter E cfg a w of
        (Continue, a', w') \<Rightarrow> tool_rounds n E cfg a' w'
      | (Return r, a', w') \<Rightarrow> None)"

text \<open>
  A stub of the model service that answers from a script, whatever the request, and
  raises once the script is used up; the tool server is a function on its own state.
\<close>

definition stub_env ::
  "('tw \<Rightarrow> string \<Rightarrow> 'j \<Rightarrow> (string + 'j call_result) \<times> 'tw) \<Rightarrow> ('j call_result \<Rightarrow> string)
     \<Rightarrow> ((string + 'j response) list \<times> 'tw, 'j) env" where
  "stub_env tool_server rendering =
     \<lparr>bedrock_converse = (\<lambda>(script, tw) request.
         case script of
           [] \<Rightarrow> (Inl ''no scripted response'', ([], tw))
         | r # script' \<Rightarrow> (r, (script', tw))),
      session_call_tool = (\<lambda>(script, tw) tool_name tool_input.
         case tool_server tw tool_name tool_input of (res, tw') \<Rightarrow> (res, (script, tw'))),
      str_result = rendering\<rparr>"



subsection \<open>Example data\<close>

text \<open>A tool server that counts its calls: three tools succeed, one reports its failure
  in the result, any other name raises; and the responses of the scenario "How many rows
  in table X?".\<close>

definition sql_server :: "nat \<Rightarrow> string \<Rightarrow> string \<Rightarrow> (string + string call_result) \<times> nat" where
  "sql_server calls tool_name tool_input =
     (if tool_name = ''query_sql''
      then (Inr \<lparr>cr_content = [TextContent ''42''], isError = False\<rparr>, Suc calls)
      else if tool_name = ''list_tables''
      then (Inr \<lparr>cr_content = [OtherContent ''image'', TextContent ''X'', TextContent ''Y''],
                 isError = False\<rparr>, Suc calls)
      else if tool_name = ''describe''
      then (Inr \<lparr>cr_content = [OtherContent ''image''], isError = False\<rparr>, Suc calls)
      else if tool_name = ''delete_rows''
      then (Inr \<lparr>cr_content = [TextContent ''permission denied''], isError = True\<rparr>, Suc calls)
      else (Inl ''unknown tool'', Suc calls))"

definition example_env :: "((string + string response) list \<times> nat, string) env" where
  "example_env = stub_env sql_server (\<lambda>result. ''raw result'')"

definition text_block :: "string \<Rightarrow> string content_block" where
  "text_block t = \<lparr>block_text = Some t, block_toolUse = None, block_toolResult = None\<rparr>"

definition tool_use_block :: "string \<Rightarrow> string \<Rightarrow> string \<Rightarrow> string content_block" where
  "tool_use_block i n args =
     \<lparr>block_text = None,
      block_toolUse = Some \<lparr>toolUseId = i, tu_name = n, tu_input = args\<rparr>,
      block_toolResult = None\<rparr>"

definition assistant_response :: "string \<Rightarrow> string content_block list \<Rightarrow> string response" where
  "assistant_response stop cs =
     \<lparr>stopReason = Some stop,
      resp_output = Some \<lparr>out_message = Some \<lparr>role = Some ''assistant'', content = Some cs\<rparr>\<rparr>\<rparr>"

definition count_rows :: "string response" where
  "count_rows = assistant_response ''tool_use'' [tool_use_block ''t1'' ''query_sql'' ''SELECT COUNT(*) FROM X'']"

definition answer_rows :: "string response" where
  "answer_rows = assistant_response ''end_turn'' [text_block ''There are 42 rows.'']"

definition fresh_agent :: "string agent" where
  "fresh_agent = \<lparr>model_id = ''m'', tools = [], messages = []\<rparr>"

definition sql_agent :: "string agent" where
  "sql_agent =
     \<lparr>model_id = ''m'',
      tools = [\<lparr>name = ''query_sql'', description = None, inputSchema = ''{}''\<rparr>],
      messages = []\<rparr>"

text \<open>The agent after the first tool round of the scenario.\<close>

definition after_count_rows :: "string agent" where
  "after_count_rows =
     \<lparr>model_id = ''m'', tools = [],
      messages =
        [user_turn ''How many rows in table X?'',
         \<lparr>role = Some ''assistant'',
          content = Some [tool_use_block ''t1'' ''query_sql'' ''SELECT COUNT(*) FROM X'']\<rparr>,
         tool_results_turn [tool_result_block ''t1'' ''42'']]\<rparr>"

text \<open>Two responses that carry no assistant message: the key \<open>"output"\<close> is missing, or
  the message is the empty dictionary.\<close>

definition no_output :: "string response" where
  "no_output = \<lparr>stopReason = Some ''end_turn'', resp_output = None\<rparr>"

definition empty_output :: "string response" where
  "empty_output =
     \<lparr>stopReason = Some ''end_turn'',
      resp_output = Some \<lparr>out_message = Some \<lparr>role = None, content = None\<rparr>\<rparr>\<rparr>"




section \<open>Lemmas on the loops\<close>

lemmas example_defs =
  example_env_def stub_env_def sql_server_def text_block_def tool_use_block_def assistant_response_def count_rows_def
  answer_rows_def fresh_agent_def sql_agent_def

lemma append_tool_specs_map: "append_tool_specs acc ts = acc @ map tool_spec_of ts"
  by (induction ts arbitrary: acc) auto

lemma final_text_concat: "final_text acc cs = acc @ concat (text_blocks cs)"
  by (induction cs arbitrary: acc) (auto simp: text_blocks_def split: option.splits)

lemma first_text_none: "(\<forall>c\<in>set cs. \<not> has_text c) \<Longrightarrow> first_text cs = None"
  by (induction cs rule: first_text.induct) auto

lemma first_text_split:
  "(\<forall>c\<in>set pre. \<not> has_text c) \<Longrightarrow> first_text (pre @ TextContent t # post) = Some t"
  by (induction pre rule: first_text.induct) auto

lemma chat_loop_continue:
  "chat_iter E cfg a w = (Continue, a', w') \<Longrightarrow> chat_loop E cfg a w = chat_loop E cfg a' w'"
  by (subst chat_loop.simps) simp

lemma chat_loop_return:
  "chat_iter E cfg a w = (Return r, a', w') \<Longrightarrow> chat_loop E cfg a w = Some (r, a', w')"
  by (subst chat_loop.simps) simp

lemma chat_loop_tool_rounds:
  "tool_rounds n E cfg a w = Some (a', w') \<Longrightarrow> chat_loop E cfg a w = chat_loop E cfg a' w'"
proof (induction n arbitrary: a w)
  case 0
  then show ?case by simp
next
  case (Suc n)
  obtain oc a1 w1 where it: "chat_iter E cfg a w = (oc, a1, w1)"
    by (cases "chat_iter E cfg a w") auto
  with Suc.prems obtain "oc = Continue" and "tool_rounds n E cfg a1 w1 = Some (a', w')"
    by (cases oc) auto
  with it Suc.IH show ?case
    by (simp add: chat_loop_continue)
qed

lemma chat_iter_error:
  "bedrock_converse E w (request_params a cfg) = (Inl e, w1) \<Longrightarrow>
     chat_iter E cfg a w = (Return (''Bedrock error: '' @ e), a, w1)"
  by (simp add: chat_iter_def)

lemma chat_iter_messages:
  "chat_iter E cfg a w = (oc, a', w') \<Longrightarrow>
     \<exists>rest. messages a' = messages a @ rest \<and> length rest \<le> 2 \<and> (oc = Continue \<longrightarrow> 1 \<le> length rest)"
  by (auto simp: chat_iter_def Let_def split: prod.splits sum.splits if_splits)

lemma tool_rounds_messages:
  "tool_rounds n E cfg a w = Some (a', w') \<Longrightarrow>
     \<exists>rest. messages a' = messages a @ rest \<and> n \<le> length rest \<and> length rest \<le> 2 * n"
proof (induction n arbitrary: a w)
  case 0
  then show ?case by simp
next
  case (Suc n)
  obtain oc a1 w1 where it: "chat_iter E cfg a w = (oc, a1, w1)"
    by (cases "chat_iter E cfg a w") auto
  with Suc.prems have oc: "oc = Continue" and rec: "tool_rounds n E cfg a1 w1 = Some (a', w')"
    by (cases oc; simp)+
  from chat_iter_messages [OF it] oc obtain r1 where
    r1: "messages a1 = messages a @ r1" "length r1 \<le> 2" "1 \<le> length r1" by auto
  from Suc.IH [OF rec] obtain r2 where
    r2: "messages a' = messages a1 @ r2" "n \<le> length r2" "length r2 \<le> 2 * n" by auto
  from r1 r2 have "messages a' = messages a @ (r1 @ r2) \<and> Suc n \<le> length (r1 @ r2)
      \<and> length (r1 @ r2) \<le> 2 * Suc n"
    by simp
  then show ?case by blast
qed





lemma chat_unfold:
  "chat E a w user_message =
     chat_loop E (format_tools_for_bedrock a) (a\<lparr>messages := messages a @ [user_turn user_message]\<rparr>) w"
  by (simp add: chat_def format_tools_for_bedrock_def Let_def)

lemma chat_error_after_rounds:
  assumes "tool_rounds n E (format_tools_for_bedrock a)
             (a\<lparr>messages := messages a @ [user_turn user_message]\<rparr>) w = Some (an, wn)"
    and "bedrock_converse E wn (request_params an (format_tools_for_bedrock a)) = (Inl e, w')"
  shows "chat E a w user_message = Some (''Bedrock error: '' @ e, an, w')"
proof -
  have "chat E a w user_message = chat_loop E (format_tools_for_bedrock a) an wn"
    using assms(1) by (simp add: chat_unfold chat_loop_tool_rounds)
  also have "\<dots> = Some (''Bedrock error: '' @ e, an, w')"
    using assms(2) by (simp add: chat_loop_return chat_iter_error)
  finally show ?thesis .
qed

lemma example_first_round:
  "tool_rounds (Suc 0) example_env (format_tools_for_bedrock fresh_agent)
     (fresh_agent\<lparr>messages := messages fresh_agent @ [user_turn ''How many rows in table X?'']\<rparr>)
     (Inr count_rows # script, 0) = Some (after_count_rows, (script, Suc 0))"
  by (simp add: example_defs after_count_rows_def chat_iter_def execute_tool_def
      assistant_message_of_def message_truthy_def get_content_def Let_def)

















section \<open>The claims\<close>



text \<open>
  C2 (as the code has it). On a successful response the assistant message is appended to
  the history when it is a non-empty dictionary (it has a role or a content). When the
  response carries no message, or an empty one, nothing is appended for it. After it the
  pass appends the tool-results message when the stop reason is \<open>"tool_use"\<close> and nothing
  otherwise.
\<close>

theorem assistant_turn_appended_when_nonempty:
  assumes "bedrock_converse E w (request_params a cfg) = (Inr response, w1)"
    and "am = assistant_message_of response"
  shows "\<exists>oc a' w' rest. chat_iter E cfg a w = (oc, a', w') \<and>
           (role am \<noteq> None \<or> content am \<noteq> None \<longrightarrow> messages a' = messages a @ [am] @ rest) \<and>
           (role am = None \<and> content am = None \<longrightarrow> messages a' = messages a @ rest) \<and>
           (stopReason response \<noteq> Some ''tool_use'' \<longrightarrow> rest = []) \<and>
           (stopReason response = Some ''tool_use'' \<longrightarrow> (\<exists>results. rest = [tool_results_turn results]))"
proof (cases "stopReason response = Some ''tool_use''")
  case True
  obtain results w2 where "run_tool_uses E w1 (get_content am) [] = (results, w2)"
    by (cases "run_tool_uses E w1 (get_content am) []") auto
  with assms True show ?thesis
    by (auto simp: chat_iter_def message_truthy_def Let_def)
next
  case False
  with assms show ?thesis
    by (simp add: chat_iter_def message_truthy_def Let_def)
qed

theorem assistant_turn_appended_when_nonempty_witness:
  "bedrock_converse example_env ([Inr answer_rows], 0) (request_params fresh_agent \<lparr>cfg_tools = None\<rparr>)
     = (Inr answer_rows, ([], 0)) \<and>
   role (assistant_message_of answer_rows) \<noteq> None \<and>
   stopReason answer_rows \<noteq> Some ''tool_use'' \<and>
   (\<exists>oc a' w'. chat_iter example_env \<lparr>cfg_tools = None\<rparr> fresh_agent ([Inr answer_rows], 0) = (oc, a', w') \<and>
      messages a' = messages fresh_agent @ [assistant_message_of answer_rows]) \<and>
   bedrock_converse example_env ([Inr no_output], 0) (request_params fresh_agent \<lparr>cfg_tools = None\<rparr>)
     = (Inr no_output, ([], 0)) \<and>
   role (assistant_message_of no_output) = None \<and> content (assistant_message_of no_output) = None \<and>
   stopReason no_output \<noteq> Some ''tool_use'' \<and>
   (\<exists>oc a' w'. chat_iter example_env \<lparr>cfg_tools = None\<rparr> fresh_agent ([Inr no_output], 0) = (oc, a', w') \<and>
      messages a' = messages fresh_agent)"
proof -
  have c1: "bedrock_converse example_env ([Inr answer_rows], 0)
      (request_params fresh_agent \<lparr>cfg_tools = None\<rparr>) = (Inr answer_rows, ([], 0))"
    by (simp add: example_env_def stub_env_def)
  have r1: "role (assistant_message_of answer_rows) \<noteq> None"
    by (simp add: answer_rows_def assistant_response_def assistant_message_of_def)
  have s1: "stopReason answer_rows \<noteq> Some ''tool_use''"
    by (simp add: answer_rows_def assistant_response_def)
  have c2: "bedrock_converse example_env ([Inr no_output], 0)
      (request_params fresh_agent \<lparr>cfg_tools = None\<rparr>) = (Inr no_output, ([], 0))"
    by (simp add: example_env_def stub_env_def)
  have r2: "role (assistant_message_of no_output) = None" "content (assistant_message_of no_output) = None"
    by (simp_all add: no_output_def assistant_message_of_def empty_message_def)
  have s2: "stopReason no_output \<noteq> Some ''tool_use''"
    by (simp add: no_output_def)
  from assistant_turn_appended_when_nonempty [OF c1 refl] r1 s1
  have w1: "\<exists>oc a' w'. chat_iter example_env \<lparr>cfg_tools = None\<rparr> fresh_agent ([Inr answer_rows], 0) = (oc, a', w') \<and>
      messages a' = messages fresh_agent @ [assistant_message_of answer_rows]"
    by auto
  from assistant_turn_appended_when_nonempty [OF c2 refl] r2 s2
  have w2: "\<exists>oc a' w'. chat_iter example_env \<lparr>cfg_tools = None\<rparr> fresh_agent ([Inr no_output], 0) = (oc, a', w') \<and>
      messages a' = messages fresh_agent"
    by auto
  from c1 r1 s1 w1 c2 r2 s2 w2 show ?thesis
    by blast
qed

text \<open>
  C2 (as the specification has it) fails: after a successful response without a message,
  and after one with an empty message, \<open>chat\<close> returns with a history that holds the user
  message only; the assistant message of the response is not in it.
\<close>

theorem empty_assistant_turn_not_appended:
  "chat example_env fresh_agent ([Inr no_output], 0) ''hello''
     = Some ('''', fresh_agent\<lparr>messages := [user_turn ''hello'']\<rparr>, ([], 0)) \<and>
   chat example_env fresh_agent ([Inr empty_output], 0) ''hello''
     = Some ('''', fresh_agent\<lparr>messages := [user_turn ''hello'']\<rparr>, ([], 0)) \<and>
   assistant_message_of no_output \<notin> set (messages (fresh_agent\<lparr>messages := [user_turn ''hello'']\<rparr>)) \<and>
   assistant_message_of empty_output \<notin> set (messages (fresh_agent\<lparr>messages := [user_turn ''hello'']\<rparr>))"
proof -
  have it1: "chat_iter example_env (format_tools_for_bedrock fresh_agent)
      (fresh_agent\<lparr>messages := messages fresh_agent @ [user_turn ''hello'']\<rparr>) ([Inr no_output], 0)
      = (Return '''', fresh_agent\<lparr>messages := [user_turn ''hello'']\<rparr>, ([], 0))"
    by (simp add: example_defs no_output_def chat_iter_def assistant_message_of_def
        empty_message_def message_truthy_def get_content_def Let_def)
  have it2: "chat_iter example_env (format_tools_for_bedrock fresh_agent)
      (fresh_agent\<lparr>messages := messages fresh_agent @ [user_turn ''hello'']\<rparr>) ([Inr empty_output], 0)
      = (Return '''', fresh_agent\<lparr>messages := [user_turn ''hello'']\<rparr>, ([], 0))"
    by (simp add: example_defs empty_output_def chat_iter_def assistant_message_of_def
        empty_message_def message_truthy_def get_content_def Let_def)
  have m: "assistant_message_of no_output \<notin> set (messages (fresh_agent\<lparr>messages := [user_turn ''hello'']\<rparr>))"
    "assistant_message_of empty_output \<notin> set (messages (fresh_agent\<lparr>messages := [user_turn ''hello'']\<rparr>))"
    by (simp_all add: no_output_def empty_output_def assistant_message_of_def empty_message_def user_turn_def)
  from it1 it2 m show ?thesis
    by (simp add: chat_unfold chat_loop_return)
qed




text \<open>
  C4. When a request to the model service raises, after any number of completed tool
  rounds of the call, the pass of the loop returns the string \<open>"Bedrock error: "\<close> followed
  by the cause and leaves the agent as it was before the request: no assistant message is
  appended, and the messages built up to that point stay. \<open>chat\<close> returns that string.
\<close>

theorem model_service_failure_keeps_history:
  assumes "tool_rounds n E (format_tools_for_bedrock a)
             (a\<lparr>messages := messages a @ [user_turn user_message]\<rparr>) w = Some (an, wn)"
    and "bedrock_converse E wn (request_params an (format_tools_for_bedrock a)) = (Inl e, w')"
  shows "chat_iter E (format_tools_for_bedrock a) an wn = (Return (''Bedrock error: '' @ e), an, w') \<and>
         chat E a w user_message = Some (''Bedrock error: '' @ e, an, w')"
  using assms by (simp add: chat_iter_error chat_error_after_rounds)

theorem model_service_failure_keeps_history_witness:
  "tool_rounds (Suc 0) example_env (format_tools_for_bedrock fresh_agent)
     (fresh_agent\<lparr>messages := messages fresh_agent @ [user_turn ''How many rows in table X?'']\<rparr>)
     ([Inr count_rows, Inl ''throttled''], 0) = Some (after_count_rows, ([Inl ''throttled''], Suc 0)) \<and>
   bedrock_converse example_env ([Inl ''throttled''], Suc 0)
     (request_params after_count_rows (format_tools_for_bedrock fresh_agent)) = (Inl ''throttled'', ([], Suc 0)) \<and>
   chat example_env fresh_agent ([Inr count_rows, Inl ''throttled''], 0) ''How many rows in table X?''
     = Some (''Bedrock error: throttled'', after_count_rows, ([], Suc 0))"
proof -
  have fail: "bedrock_converse example_env ([Inl ''throttled''], Suc 0)
      (request_params after_count_rows (format_tools_for_bedrock fresh_agent))
      = (Inl ''throttled'', ([], Suc 0))"
    by (simp add: example_env_def stub_env_def)
  from model_service_failure_keeps_history [OF example_first_round fail] example_first_round fail
  show ?thesis by simp
qed



text \<open>
  C6. When the service answers with a stop reason other than \<open>"tool_use"\<close>, the call
  returns the texts of the assistant's content blocks, joined in their order, and the
  empty string when no block has a text.
\<close>

theorem chat_done_returns_text:
  assumes "bedrock_converse E w (request_params a cfg) = (Inr response, w1)"
    and "stopReason response \<noteq> Some ''tool_use''"
  shows "\<exists>a'. chat_loop E cfg a w =
           Some (concat (text_blocks (get_content (assistant_message_of response))), a', w1) \<and>
         (text_blocks (get_content (assistant_message_of response)) = [] \<longrightarrow>
            chat_loop E cfg a w = Some ('''', a', w1))"
  using assms by (subst (1 2) chat_loop.simps) (simp add: chat_iter_def final_text_concat Let_def)

theorem chat_done_returns_text_witness:
  "bedrock_converse example_env ([Inr answer_rows], 0) (request_params fresh_agent \<lparr>cfg_tools = None\<rparr>)
     = (Inr answer_rows, ([], 0)) \<and>
   stopReason answer_rows \<noteq> Some ''tool_use'' \<and>
   (\<exists>a'. chat_loop example_env \<lparr>cfg_tools = None\<rparr> fresh_agent ([Inr answer_rows], 0)
           = Some (''There are 42 rows.'', a', ([], 0))) \<and>
   bedrock_converse example_env ([Inr (assistant_response ''end_turn'' [])], 0)
       (request_params fresh_agent \<lparr>cfg_tools = None\<rparr>)
     = (Inr (assistant_response ''end_turn'' []), ([], 0)) \<and>
   text_blocks (get_content (assistant_message_of (assistant_response ''end_turn'' []))) = [] \<and>
   (\<exists>a'. chat_loop example_env \<lparr>cfg_tools = None\<rparr> fresh_agent
             ([Inr (assistant_response ''end_turn'' [])], 0) = Some ('''', a', ([], 0)))"
proof -
  have c1: "bedrock_converse example_env ([Inr answer_rows], 0)
      (request_params fresh_agent \<lparr>cfg_tools = None\<rparr>) = (Inr answer_rows, ([], 0))"
    by (simp add: example_env_def stub_env_def)
  have s1: "stopReason answer_rows \<noteq> Some ''tool_use''"
    by (simp add: answer_rows_def assistant_response_def)
  have t1: "concat (text_blocks (get_content (assistant_message_of answer_rows))) = ''There are 42 rows.''"
    by (simp add: example_defs text_blocks_def get_content_def assistant_message_of_def)
  have c2: "bedrock_converse example_env ([Inr (assistant_response ''end_turn'' [])], 0)
      (request_params fresh_agent \<lparr>cfg_tools = None\<rparr>)
      = (Inr (assistant_response ''end_turn'' []), ([], 0))"
    by (simp add: example_env_def stub_env_def)
  have s2: "stopReason (assistant_response ''end_turn'' []) \<noteq> Some ''tool_use''"
    by (simp add: assistant_response_def)
  have t2: "text_blocks (get_content (assistant_message_of (assistant_response ''end_turn'' []))) = []"
    by (simp add: assistant_response_def text_blocks_def get_content_def assistant_message_of_def)
  from chat_done_returns_text [OF c1 s1] t1 chat_done_returns_text [OF c2 s2] t2 c1 s1 c2
  show ?thesis by auto
qed

text \<open>
  C7. With an empty tool list \<open>_format_tools_for_bedrock\<close> returns the empty dictionary
  and the request carries no \<open>toolConfig\<close>, as when no tools are offered. With a
  non-empty tool list the configuration lists, in order, one declaration for each tool:
  its name, its description (the empty string when the tool has none) and its input
  schema unchanged; the request carries this configuration. \<open>chat\<close> computes the
  configuration once and uses it for every request of the call.
\<close>

theorem format_tools_for_bedrock_spec:
  "(tools a = [] \<longrightarrow>
      format_tools_for_bedrock a = \<lparr>cfg_tools = None\<rparr> \<and>
      toolConfig (request_params b (format_tools_for_bedrock a)) = None) \<and>
   (tools a \<noteq> [] \<longrightarrow>
      format_tools_for_bedrock a =
        \<lparr>cfg_tools = Some (map (\<lambda>t. \<lparr>spec_name = name t,
                                     spec_description = (case description t of None \<Rightarrow> '''' | Some d \<Rightarrow> d),
                                     spec_inputSchema = inputSchema t\<rparr>) (tools a))\<rparr> \<and>
      toolConfig (request_params b (format_tools_for_bedrock a)) = Some (format_tools_for_bedrock a)) \<and>
   chat E a w user_message =
     chat_loop E (format_tools_for_bedrock a) (a\<lparr>messages := messages a @ [user_turn user_message]\<rparr>) w"
proof -
  have spec: "tool_spec_of = (\<lambda>t. \<lparr>spec_name = name t,
        spec_description = (case description t of None \<Rightarrow> '''' | Some d \<Rightarrow> d),
        spec_inputSchema = inputSchema t\<rparr>)"
    by (rule ext) (simp add: tool_spec_of_def split: option.splits)
  show ?thesis
    by (simp add: format_tools_for_bedrock_def chat_def request_params_def
        append_tool_specs_map spec [symmetric] Let_def)
qed

theorem format_tools_for_bedrock_spec_witness:
  "tools fresh_agent = [] \<and>
   format_tools_for_bedrock fresh_agent = \<lparr>cfg_tools = None\<rparr> \<and>
   toolConfig (request_params fresh_agent (format_tools_for_bedrock fresh_agent)) = None \<and>
   tools sql_agent \<noteq> [] \<and>
   format_tools_for_bedrock sql_agent =
     \<lparr>cfg_tools = Some [\<lparr>spec_name = ''query_sql'', spec_description = '''', spec_inputSchema = ''{}''\<rparr>]\<rparr> \<and>
   toolConfig (request_params sql_agent (format_tools_for_bedrock sql_agent)) =
     Some (format_tools_for_bedrock sql_agent)"
proof -
  have none: "tools fresh_agent = []"
    by (simp add: fresh_agent_def)
  have some: "tools sql_agent \<noteq> []"
    by (simp add: sql_agent_def)
  have specs: "map (\<lambda>t. \<lparr>spec_name = name t,
        spec_description = (case description t of None \<Rightarrow> '''' | Some d \<Rightarrow> d),
        spec_inputSchema = inputSchema t\<rparr>) (tools sql_agent)
      = [\<lparr>spec_name = ''query_sql'', spec_description = '''', spec_inputSchema = ''{}''\<rparr>]"
    by (simp add: sql_agent_def)
  show ?thesis
    using none some
      format_tools_for_bedrock_spec [where a = fresh_agent and b = fresh_agent
        and E = example_env and w = "([], 0)" and user_message = "''hi''"]
      format_tools_for_bedrock_spec [where a = sql_agent and b = sql_agent
        and E = example_env and w = "([], 0)" and user_message = "''hi''"]
    unfolding specs by blast
qed

text \<open>
  C8. When the call succeeds, \<open>_execute_tool\<close> returns the text of the first content item
  that has a text, whatever follows it; when no content item has a text, and so also when
  there are no content items, it returns \<open>str(result)\<close>.
\<close>

theorem execute_tool_normalization:
  assumes "session_call_tool E w tool_name tool_input = (Inr result, w')"
  shows "(\<forall>pre t post. cr_content result = pre @ TextContent t # post \<and> (\<forall>c\<in>set pre. \<not> has_text c)
            \<longrightarrow> execute_tool E w tool_name tool_input = (t, w')) \<and>
         ((\<forall>c\<in>set (cr_content result). \<not> has_text c)
            \<longrightarrow> execute_tool E w tool_name tool_input = (str_result E result, w'))"
  using assms by (auto simp: execute_tool_def first_text_none first_text_split)

theorem execute_tool_normalization_witness:
  "session_call_tool example_env ([], 0) ''list_tables'' ''{}''
     = (Inr \<lparr>cr_content = [OtherContent ''image'', TextContent ''X'', TextContent ''Y''], isError = False\<rparr>, ([], 1)) \<and>
   \<not> has_text (OtherContent ''image'' :: string content_item) \<and>
   execute_tool example_env ([], 0) ''list_tables'' ''{}'' = (''X'', ([], 1)) \<and>
   session_call_tool example_env ([], 0) ''describe'' ''{}''
     = (Inr \<lparr>cr_content = [OtherContent ''image''], isError = False\<rparr>, ([], 1)) \<and>
   execute_tool example_env ([], 0) ''describe'' ''{}'' = (''raw result'', ([], 1))"
proof -
  have c1: "session_call_tool example_env ([], 0) ''list_tables'' ''{}''
      = (Inr \<lparr>cr_content = [OtherContent ''image'', TextContent ''X'', TextContent ''Y''], isError = False\<rparr>, ([], 1))"
    by (simp add: example_defs)
  have c2: "session_call_tool example_env ([], 0) ''describe'' ''{}''
      = (Inr \<lparr>cr_content = [OtherContent ''image''], isError = False\<rparr>, ([], 1))"
    by (simp add: example_defs)
  have r: "str_result example_env = (\<lambda>result. ''raw result'')"
    by (simp add: example_defs)
  from execute_tool_normalization [OF c1, THEN conjunct1, rule_format,
      of "[OtherContent ''image'']" "''X''" "[TextContent ''Y'']"]
  have e1: "execute_tool example_env ([], 0) ''list_tables'' ''{}'' = (''X'', ([], 1))"
    by simp
  from execute_tool_normalization [OF c2, THEN conjunct2] r
  have e2: "execute_tool example_env ([], 0) ''describe'' ''{}'' = (''raw result'', ([], 1))"
    by simp
  from c1 c2 e1 e2 show ?thesis
    by simp
qed


text \<open>
  C10. A call of \<open>chat\<close> that ends with a model-service error after \<open>n\<close> completed tool
  rounds leaves in the history the messages from before the call, then the user message
  of the call, then what the \<open>n\<close> rounds appended (between \<open>n\<close> and \<open>2 * n\<close> messages, so
  nothing when the first request fails). The history is not put back to what it was
  before the call.
\<close>

theorem failed_chat_keeps_user_turn:
  assumes "tool_rounds n E (format_tools_for_bedrock a)
             (a\<lparr>messages := messages a @ [user_turn user_message]\<rparr>) w = Some (an, wn)"
    and "bedrock_converse E wn (request_params an (format_tools_for_bedrock a)) = (Inl e, w')"
  shows "\<exists>rest. chat E a w user_message = Some (''Bedrock error: '' @ e, an, w') \<and>
           messages an = messages a @ [user_turn user_message] @ rest \<and>
           n \<le> length rest \<and> length rest \<le> 2 * n \<and>
           messages an \<noteq> messages a"
proof -
  from tool_rounds_messages [OF assms(1)] obtain rest where
    "messages an = messages a @ [user_turn user_message] @ rest" "n \<le> length rest" "length rest \<le> 2 * n"
    by auto
  moreover from this have "messages an \<noteq> messages a"
    by simp
  ultimately show ?thesis
    using chat_error_after_rounds [OF assms] by blast
qed

theorem failed_chat_keeps_user_turn_witness:
  "tool_rounds 0 example_env (format_tools_for_bedrock fresh_agent)
     (fresh_agent\<lparr>messages := messages fresh_agent @ [user_turn ''hello'']\<rparr>) ([Inl ''throttled''], 0)
     = Some (fresh_agent\<lparr>messages := messages fresh_agent @ [user_turn ''hello'']\<rparr>, ([Inl ''throttled''], 0)) \<and>
   bedrock_converse example_env ([Inl ''throttled''], 0)
     (request_params (fresh_agent\<lparr>messages := messages fresh_agent @ [user_turn ''hello'']\<rparr>)
        (format_tools_for_bedrock fresh_agent)) = (Inl ''throttled'', ([], 0)) \<and>
   chat example_env fresh_agent ([Inl ''throttled''], 0) ''hello''
     = Some (''Bedrock error: throttled'',
             fresh_agent\<lparr>messages := messages fresh_agent @ [user_turn ''hello'']\<rparr>, ([], 0)) \<and>
   messages (fresh_agent\<lparr>messages := messages fresh_agent @ [user_turn ''hello'']\<rparr>)
     = messages fresh_agent @ [user_turn ''hello'']"
proof -
  let ?a0 = "fresh_agent\<lparr>messages := messages fresh_agent @ [user_turn ''hello'']\<rparr>"
  have rounds: "tool_rounds 0 example_env (format_tools_for_bedrock fresh_agent) ?a0 ([Inl ''throttled''], 0)
      = Some (?a0, ([Inl ''throttled''], 0))"
    by simp
  have fail: "bedrock_converse example_env ([Inl ''throttled''], 0)
      (request_params ?a0 (format_tools_for_bedrock fresh_agent)) = (Inl ''throttled'', ([], 0))"
    by (simp add: example_env_def stub_env_def)
  from failed_chat_keeps_user_turn [OF rounds fail] rounds fail
  show ?thesis by auto
qed


end
